theory Spec2Isabelle
  imports Main "HOL-Library.AList" "HOL-Library.Sublist"
begin

section \<open>The tig command layer\<close>

text \<open>
  The source is the command layer of tig (\<^verbatim>\<open>init\<close>, \<^verbatim>\<open>rm\<close>, \<^verbatim>\<open>commit\<close>,
  \<^verbatim>\<open>branch\<close>, \<^verbatim>\<open>checkout\<close>, \<^verbatim>\<open>diff\<close>). Each command is embedded as a function
  from the repository state to a result and the state it leaves behind. A JavaScript
  exception is a value: a command returns \<open>Inl e\<close> together with the state at the
  moment of the throw, so that writes made before the throw stay visible.

  The source writes the entries of the exported object as \<^verbatim>\<open>name = (params) => body\<close>;
  each entry is read as the function of that name. Parameters that a body never reads are
  left out. The commands \<^verbatim>\<open>add\<close> and \<^verbatim>\<open>remote\<close> are not embedded.

  The helper modules the commands call (\<^verbatim>\<open>files\<close>, \<^verbatim>\<open>config\<close>, \<^verbatim>\<open>refs\<close>,
  \<^verbatim>\<open>objects\<close>, \<^verbatim>\<open>index\<close>, \<^verbatim>\<open>diff\<close>, \<^verbatim>\<open>merge\<close>, \<^verbatim>\<open>util\<close>) are not part of
  the source files. They are the components and collaborators that the specification
  describes, and they are modelled from it; each such definition says so.

  Every other name that the source reads without declaring it is what it is in JavaScript.
  \<^verbatim>\<open>changestoRm\<close>, \<^verbatim>\<open>Errror\<close> and \<^verbatim>\<open>object\<close> are identifiers that are declared
  nowhere (the store of the specification is \<^verbatim>\<open>objects\<close>), and reading one throws a
  \<open>ReferenceError\<close>. The exported object \<^verbatim>\<open>tig\<close> has the eight commands as its
  properties and no others, so \<^verbatim>\<open>tig.write_tree\<close> and \<^verbatim>\<open>tig.update_ref\<close> are
  \<^verbatim>\<open>undefined\<close>, and calling one throws a \<open>TypeError\<close>. Behind a read of an undeclared
  identifier that every run reaches, the statements of the function have no counterpart in
  the embedding; a call on \<^verbatim>\<open>tig\<close> keeps its place, and the statements behind it are
  embedded for the value the call would bind.
\<close>

subsection \<open>JavaScript values and exceptions\<close>

text \<open>
  A value that may be \<^verbatim>\<open>undefined\<close> is an option. \<open>js_str\<close> is the text a template
  literal interpolates, \<open>join\<close> is \<^verbatim>\<open>Array.prototype.join\<close>.
\<close>

definition js_str :: "string option \<Rightarrow> string" where
  "js_str v = (case v of None \<Rightarrow> ''undefined'' | Some t \<Rightarrow> t)"

fun join :: "string \<Rightarrow> string list \<Rightarrow> string" where
  "join sep [] = []"
| "join sep [x] = x"
| "join sep (x # y # ys) = x @ sep @ join sep (y # ys)"

text \<open>
  \<open>Error\<close> is \<^verbatim>\<open>throw new Error(msg)\<close> of the source. \<open>ReferenceError\<close> is what
  JavaScript throws when an identifier that was never declared is read, \<open>TypeError\<close>
  when a property of \<^verbatim>\<open>undefined\<close> is read or a non-function is called, \<open>RangeError\<close>
  when the call stack is exhausted. The remaining constructors are the error kinds of the
  specification that the helper modules raise.
\<close>

datatype error =
    Error string
  | ReferenceError string
  | TypeError string
  | RangeError string
  | NotARepository
  | BareRepositoryViolation
  | ObjectNotFound
  | NotACommit
  | NoSuchFile string

subsection \<open>Repository state\<close>

type_synonym hash = string
type_synonym path = string

datatype kind = KBlob | KTree | KCommit

text \<open>
  The three kinds of stored object. A tree is one directory level: segment name, kind and
  hash of each entry. A commit holds the three values \<^verbatim>\<open>objects.writeCommit\<close> is given:
  tree hash, message (the JavaScript value, possibly \<^verbatim>\<open>undefined\<close>) and parent hashes.
\<close>

datatype obj =
    Blob string
  | Tree "(string \<times> kind \<times> hash) list"
  | Commit hash "string option" "hash list"

text \<open>
  The state a command sees, one field per entry of the persisted layout. \<open>tigFiles\<close>
  holds the text files of the repository directory (\<^verbatim>\<open>HEAD\<close>, \<^verbatim>\<open>MERGE_HEAD\<close>,
  \<^verbatim>\<open>MERGE_MSG\<close>, \<^verbatim>\<open>refs/heads/<branch>\<close>) by their path inside it, so that
  \<^verbatim>\<open>files.tigPath(name)\<close> is the key \<open>name\<close>. \<open>configBare\<close> is the \<^verbatim>\<open>core.bare\<close> entry
  of the configuration file. An index entry is (path, blob hash, stage). The working copy
  maps the path of each file on disk to its content; the current directory is the root of
  the working copy, so a path argument is already relative to the repository root.
\<close>

record repo =
  isRepo :: bool
  configBare :: bool
  tigFiles :: "(string \<times> string) list"
  objectStore :: "(hash \<times> obj) list"
  indexEntries :: "(path \<times> hash \<times> nat) list"
  workingFiles :: "(path \<times> string) list"

type_synonym result = "(error + string option) \<times> repo"

subsection \<open>files and config\<close>

text \<open>Modelled from the spec: the \<^verbatim>\<open>files\<close> and \<^verbatim>\<open>config\<close> helpers, which are external
  collaborators. \<open>files_read s name\<close> is \<^verbatim>\<open>files.read(files.tigPath(name))\<close>:
  \<^verbatim>\<open>undefined\<close> when the file is absent.\<close>

definition files_inRepo :: "repo \<Rightarrow> bool" where
  "files_inRepo s = isRepo s"

definition files_read :: "repo \<Rightarrow> string \<Rightarrow> string option" where
  "files_read s name = map_of (tigFiles s) name"

definition files_pathFromRepoRoot :: "path \<Rightarrow> path" where
  "files_pathFromRepoRoot p = p"

definition config_isBare :: "repo \<Rightarrow> bool" where
  "config_isBare s = configBare s"

subsection \<open>Object Store\<close>

text \<open>Modelled from the spec: the Object Store (\<^verbatim>\<open>objects\<close>). The content digest
  is not fixed by the specification: it is the parameter \<open>H\<close> of every operation that
  writes or hashes. \<open>objects_read\<close> fails with
  \<open>ObjectNotFound\<close> when no object has the digest, also when the digest is
  \<^verbatim>\<open>undefined\<close>. \<open>objects_write\<close> stores the object under its digest if the digest is
  not present yet, and returns the digest.\<close>

definition objects_exists :: "repo \<Rightarrow> hash option \<Rightarrow> bool" where
  "objects_exists s v =
    (case v of None \<Rightarrow> False | Some h \<Rightarrow> map_of (objectStore s) h \<noteq> None)"

definition objects_read :: "repo \<Rightarrow> hash option \<Rightarrow> error + obj" where
  "objects_read s v =
    (case v of
       None \<Rightarrow> Inl ObjectNotFound
     | Some h \<Rightarrow>
         (case map_of (objectStore s) h of
            None \<Rightarrow> Inl ObjectNotFound
          | Some ob \<Rightarrow> Inr ob))"

definition objects_write :: "(obj \<Rightarrow> hash) \<Rightarrow> obj \<Rightarrow> repo \<Rightarrow> hash \<times> repo" where
  "objects_write H ob s =
    (H ob,
     if objects_exists s (Some (H ob)) then s
     else s\<lparr>objectStore := objectStore s @ [(H ob, ob)]\<rparr>)"

definition objects_writeCommit ::
  "(obj \<Rightarrow> hash) \<Rightarrow> hash \<Rightarrow> string option \<Rightarrow> hash list \<Rightarrow> repo \<Rightarrow> hash \<times> repo" where
  "objects_writeCommit H treeHash msg parentHashes s =
    objects_write H (Commit treeHash msg parentHashes) s"

subsubsection \<open>The flattened view of a commit\<close>

type_synonym toc = "(path \<times> hash) list"

text \<open>Modelled from the spec: \<^verbatim>\<open>objects.commitToc\<close>, the flattened view of a commit,
  found by walking its tree through the store. The walk of the source recurses once per
  directory level; the first argument of \<open>fileTree\<close> bounds the depth by the number of
  stored objects, which a store without a cycle never reaches, and a walk that exceeds it
  ends as the JavaScript recursion would, with a \<open>RangeError\<close>.\<close>

fun collect :: "(error + 'a list) list \<Rightarrow> error + 'a list" where
  "collect [] = Inr []"
| "collect (x # xs) =
    (case x of
       Inl e \<Rightarrow> Inl e
     | Inr ys \<Rightarrow> (case collect xs of Inl e \<Rightarrow> Inl e | Inr zs \<Rightarrow> Inr (ys @ zs)))"

fun fileTree :: "nat \<Rightarrow> repo \<Rightarrow> string \<Rightarrow> hash \<Rightarrow> error + toc" where
  "fileTree 0 s pre h = Inl (RangeError ''Maximum call stack size exceeded'')"
| "fileTree (Suc n) s pre h =
    (case objects_read s (Some h) of
       Inl e \<Rightarrow> Inl e
     | Inr (Tree es) \<Rightarrow>
         collect (map (\<lambda>(name, k, h').
           if k = KTree then fileTree n s (pre @ name @ ''/'') h'
           else Inr [(pre @ name, h')]) es)
     | Inr (Blob c) \<Rightarrow> Inl ObjectNotFound
     | Inr (Commit t msg ps) \<Rightarrow> Inl ObjectNotFound)"

definition objects_commitToc :: "repo \<Rightarrow> hash \<Rightarrow> error + toc" where
  "objects_commitToc s h =
    (case objects_read s (Some h) of
       Inl e \<Rightarrow> Inl e
     | Inr (Commit t msg ps) \<Rightarrow> fileTree (length (objectStore s)) s [] t
     | Inr (Blob c) \<Rightarrow> Inl NotACommit
     | Inr (Tree es) \<Rightarrow> Inl NotACommit)"

subsection \<open>Ref Store\<close>

text \<open>Modelled from the spec: the Ref Store (\<^verbatim>\<open>refs\<close>). A ref is a text file of the
  repository directory: \<^verbatim>\<open>HEAD\<close>, \<^verbatim>\<open>MERGE_HEAD\<close> or \<^verbatim>\<open>refs/heads/<branch>\<close>. Its
  content is a hash, or for \<^verbatim>\<open>HEAD\<close> the symbolic text \<^verbatim>\<open>ref: <ref name>\<close>, with or
  without a final newline. \<open>refs_hash\<close> resolves \<^verbatim>\<open>HEAD\<close> through the ref it names;
  any other name that is the digest of a stored object is returned as it is; a name that
  is not a ref name is a branch name. The result is \<^verbatim>\<open>undefined\<close> when nothing is
  found, and for the argument \<^verbatim>\<open>undefined\<close>.\<close>

definition refs_toLocalRef :: "string \<Rightarrow> string" where
  "refs_toLocalRef name = ''refs/heads/'' @ name"

definition refs_isRef :: "string \<Rightarrow> bool" where
  "refs_isRef r = (r = ''HEAD'' \<or> r = ''MERGE_HEAD'' \<or> prefix ''refs/heads/'' r)"

definition refs_exists :: "repo \<Rightarrow> string \<Rightarrow> bool" where
  "refs_exists s r = (refs_isRef r \<and> files_read s r \<noteq> None)"

definition refs_rm :: "repo \<Rightarrow> string \<Rightarrow> repo" where
  "refs_rm s r = s\<lparr>tigFiles := AList.delete r (tigFiles s)\<rparr>"

definition chomp :: "string \<Rightarrow> string" where
  "chomp t = (if t \<noteq> [] \<and> last t = CHR ''\<newline>'' then butlast t else t)"

definition symbolicTarget :: "string \<Rightarrow> string option" where
  "symbolicTarget content =
    (if prefix ''ref: '' content then Some (chomp (drop 5 content)) else None)"

definition refs_isHeadDetached :: "repo \<Rightarrow> bool" where
  "refs_isHeadDetached s =
    (case files_read s ''HEAD'' of None \<Rightarrow> False | Some c \<Rightarrow> symbolicTarget c = None)"

definition refs_headBranchName :: "repo \<Rightarrow> string option" where
  "refs_headBranchName s =
    (case files_read s ''HEAD'' of
       None \<Rightarrow> None
     | Some c \<Rightarrow>
         (case symbolicTarget c of
            None \<Rightarrow> None
          | Some t \<Rightarrow> if prefix ''refs/heads/'' t then Some (drop 11 t) else None))"

definition refs_terminalRef :: "repo \<Rightarrow> string \<Rightarrow> string" where
  "refs_terminalRef s r =
    (if r = ''HEAD'' then
       (case files_read s ''HEAD'' of
          None \<Rightarrow> ''HEAD''
        | Some c \<Rightarrow> (case symbolicTarget c of None \<Rightarrow> ''HEAD'' | Some t \<Rightarrow> t))
     else if refs_isRef r then r
     else refs_toLocalRef r)"

definition refs_hash :: "repo \<Rightarrow> string option \<Rightarrow> hash option" where
  "refs_hash s v =
    (case v of
       None \<Rightarrow> None
     | Some r \<Rightarrow>
         if r \<noteq> ''HEAD'' \<and> objects_exists s (Some r) then Some r
         else files_read s (refs_terminalRef s r))"

definition refs_localHeads :: "repo \<Rightarrow> (string \<times> hash) list" where
  "refs_localHeads s =
    map (\<lambda>(k, v). (drop 11 k, v)) (filter (\<lambda>(k, v). prefix ''refs/heads/'' k) (tigFiles s))"

definition refs_commitParentHashes :: "repo \<Rightarrow> hash list" where
  "refs_commitParentHashes s =
    (case refs_hash s (Some ''HEAD'') of
       None \<Rightarrow> []
     | Some h \<Rightarrow>
         (case refs_hash s (Some ''MERGE_HEAD'') of
            None \<Rightarrow> [h]
          | Some mh \<Rightarrow> [h, mh]))"

text \<open>Modelled from the spec: \<^verbatim>\<open>merge.isMergeInProgress\<close>. A merge is pending while the
  \<^verbatim>\<open>MERGE_HEAD\<close> marker is present.\<close>

definition merge_isMergeInProgress :: "repo \<Rightarrow> bool" where
  "merge_isMergeInProgress s = refs_exists s ''MERGE_HEAD''"

subsection \<open>Index\<close>

text \<open>Modelled from the spec: the Index (\<^verbatim>\<open>index\<close>). \<open>index_toc\<close> flattens the
  entries to a mapping from path to hash; of several entries for one path the last one
  stands. \<open>index_matchingFiles\<close> gives the staged paths equal to or nested under the
  argument, \<open>index_conflictedPaths\<close> the paths with an entry at a stage other than 0.\<close>

definition index_toc :: "repo \<Rightarrow> toc" where
  "index_toc s = fold (\<lambda>(p, h, st) t. AList.update p h t) (indexEntries s) []"

definition index_matchingFiles :: "repo \<Rightarrow> path \<Rightarrow> path list" where
  "index_matchingFiles s pathPrefix =
    filter (\<lambda>p. p = pathPrefix \<or> prefix (pathPrefix @ ''/'') p) (map fst (index_toc s))"

definition index_conflictedPaths :: "repo \<Rightarrow> path list" where
  "index_conflictedPaths s =
    remdups (map fst (filter (\<lambda>(p, h, st). st \<noteq> 0) (indexEntries s)))"

subsection \<open>Diff Engine\<close>

text \<open>Modelled from the spec: the Diff Engine (\<^verbatim>\<open>diff\<close>) and \<^verbatim>\<open>util.intersection\<close>.
  A diff entry holds the path, its status and the hash on either side. A side given as a
  hash is the toc of that commit; the first side left \<^verbatim>\<open>undefined\<close> is the index, the
  second side left \<^verbatim>\<open>undefined\<close> is the working copy. \<open>diff_nameStatus\<close> drops the
  unchanged paths and names the status by its letter. \<open>diff_addedOrModifiedFiles\<close> are
  the paths where the working copy differs from the index by an addition or a
  modification. \<open>diff_changedFilesCommitWouldOverwrite\<close> are the paths where the working
  copy differs from the index and the index differs from the target.\<close>

datatype status = ADD | MODIFY | DELETE | SAME

type_synonym diffentry = "path \<times> status \<times> hash option \<times> hash option"

definition fileStatus :: "hash option \<Rightarrow> hash option \<Rightarrow> status" where
  "fileStatus a b =
    (if a = b then SAME else if a = None then ADD else if b = None then DELETE else MODIFY)"

definition diff_tocDiff :: "toc \<Rightarrow> toc \<Rightarrow> diffentry list" where
  "diff_tocDiff a b =
    map (\<lambda>p. (p, fileStatus (map_of a p) (map_of b p), map_of a p, map_of b p))
      (remdups (map fst a @ map fst b))"

definition workingCopyToc :: "(obj \<Rightarrow> hash) \<Rightarrow> repo \<Rightarrow> toc" where
  "workingCopyToc H s = map (\<lambda>(p, c). (p, H (Blob c))) (workingFiles s)"

definition diff_diff ::
  "(obj \<Rightarrow> hash) \<Rightarrow> repo \<Rightarrow> hash option \<Rightarrow> hash option \<Rightarrow> error + diffentry list" where
  "diff_diff H s hash1 hash2 =
    (case (case hash1 of None \<Rightarrow> Inr (index_toc s) | Some h \<Rightarrow> objects_commitToc s h) of
       Inl e \<Rightarrow> Inl e
     | Inr a \<Rightarrow>
         (case (case hash2 of
                  None \<Rightarrow> Inr (workingCopyToc H s)
                | Some h \<Rightarrow> objects_commitToc s h) of
            Inl e \<Rightarrow> Inl e
          | Inr b \<Rightarrow> Inr (diff_tocDiff a b)))"

fun statusLetter :: "status \<Rightarrow> string" where
  "statusLetter ADD = ''A''"
| "statusLetter MODIFY = ''M''"
| "statusLetter DELETE = ''D''"
| "statusLetter SAME = ''SAME''"

definition diff_nameStatus :: "diffentry list \<Rightarrow> (path \<times> string) list" where
  "diff_nameStatus d =
    map (\<lambda>(p, st, a, b). (p, statusLetter st)) (filter (\<lambda>(p, st, a, b). st \<noteq> SAME) d)"

definition util_intersection :: "'a list \<Rightarrow> 'a list \<Rightarrow> 'a list" where
  "util_intersection a b = filter (\<lambda>x. x \<in> set b) a"

definition diff_addedOrModifiedFiles :: "(obj \<Rightarrow> hash) \<Rightarrow> repo \<Rightarrow> path list" where
  "diff_addedOrModifiedFiles H s =
    map fst (filter (\<lambda>(p, st, a, b). st = ADD \<or> st = MODIFY)
      (diff_tocDiff (index_toc s) (workingCopyToc H s)))"

definition diff_changedFilesCommitWouldOverwrite ::
  "(obj \<Rightarrow> hash) \<Rightarrow> repo \<Rightarrow> hash option \<Rightarrow> error + path list" where
  "diff_changedFilesCommitWouldOverwrite H s h =
    (case diff_diff H s None None of
       Inl e \<Rightarrow> Inl e
     | Inr localChanges \<Rightarrow>
         (case diff_diff H s None h of
            Inl e \<Rightarrow> Inl e
          | Inr overwritten \<Rightarrow>
              Inr (util_intersection (map fst (diff_nameStatus localChanges))
                     (map fst (diff_nameStatus overwritten)))))"

subsection \<open>File system\<close>

text \<open>The calls of Node's \<^verbatim>\<open>fs\<close> module. \<open>fs_existsSync\<close> and \<open>fs_isDirectory\<close>
  look at a path of the working copy, where a directory exists when a file lies under it.
  \<open>fs_unlinkSync\<close> removes a file of the repository directory and throws when there is
  none.\<close>

definition fs_isDirectory :: "repo \<Rightarrow> path \<Rightarrow> bool" where
  "fs_isDirectory s p = list_ex (\<lambda>q. prefix (p @ ''/'') q) (map fst (workingFiles s))"

definition fs_existsSync :: "repo \<Rightarrow> path \<Rightarrow> bool" where
  "fs_existsSync s p = (map_of (workingFiles s) p \<noteq> None \<or> fs_isDirectory s p)"

definition fs_unlinkSync :: "repo \<Rightarrow> string \<Rightarrow> error + repo" where
  "fs_unlinkSync s name =
    (if files_read s name = None then Inl (NoSuchFile name)
     else Inr (s\<lparr>tigFiles := AList.delete name (tigFiles s)\<rparr>))"

subsection \<open>Calls on the tig object\<close>

text \<open>
  \<^verbatim>\<open>tig.write_tree()\<close> and \<^verbatim>\<open>tig.update_ref(ref, hash)\<close>: the object \<^verbatim>\<open>tig\<close> of the
  source has no property of either name, so each call throws a \<open>TypeError\<close> once its
  arguments are evaluated, and changes nothing. The result type is the one a call that
  returned would have: a tree hash for the first, nothing for the second.
\<close>

definition tig_write_tree :: "repo \<Rightarrow> (error + hash) \<times> repo" where
  "tig_write_tree s = (Inl (TypeError ''tig.write_tree is not a function''), s)"

definition tig_update_ref :: "repo \<Rightarrow> string \<Rightarrow> hash \<Rightarrow> error option \<times> repo" where
  "tig_update_ref s refToUpdate h = (Some (TypeError ''tig.update_ref is not a function''), s)"

subsection \<open>init\<close>

text \<open>
  The options of \<^verbatim>\<open>init\<close>. \<open>None\<close> is a call without options, which the source
  replaces by the empty object; a flag that is absent is \<open>False\<close>.
\<close>

record init_opts =
  bare :: bool

text \<open>
  \<^verbatim>\<open>init\<close>: inside a repository it returns at once. Otherwise it writes the directory
  structure \<^verbatim>\<open>tigStructure\<close>: the \<^verbatim>\<open>HEAD\<close> file with the text of the source, the
  configuration with \<^verbatim>\<open>bare\<close> set to \<^verbatim>\<open>opts.bare === true\<close>, an empty \<^verbatim>\<open>objects\<close>
  directory and an empty \<^verbatim>\<open>refs/heads\<close> directory. The structure goes into \<^verbatim>\<open>.tig\<close>,
  or into the current directory for a bare repository; the state holds the content of that
  directory wherever it lies. The working copy is not touched.
\<close>

definition init :: "init_opts option \<Rightarrow> repo \<Rightarrow> result" where
  "init opts s =
    (if files_inRepo s then (Inr None, s)
     else
       let opts' = (case opts of None \<Rightarrow> \<lparr>bare = False\<rparr> | Some v \<Rightarrow> v)
       in (Inr None,
           s\<lparr>isRepo := True,
             configBare := bare opts',
             tigFiles := [(''HEAD'', ''ref: refs/headers/master\<newline>'')],
             objectStore := [],
             indexEntries := []\<rparr>))"

subsection \<open>rm\<close>

text \<open>
  The options of \<^verbatim>\<open>rm\<close>: \<open>opt_f\<close> is \<^verbatim>\<open>opts.f\<close>, \<open>opt_r\<close> is \<^verbatim>\<open>opts.r\<close>. The
  source reads \<^verbatim>\<open>opts.f\<close> without a default for \<^verbatim>\<open>opts\<close>, so a call without options
  throws a \<open>TypeError\<close> there.
\<close>

record rm_opts =
  opt_f :: bool
  opt_r :: bool

text \<open>
  \<^verbatim>\<open>rm\<close>, statement by statement. After \<^verbatim>\<open>changesToRm\<close> is computed the source tests
  \<^verbatim>\<open>changestoRm.length\<close>, with a lower-case t: an identifier that is declared nowhere, so
  reading it throws a \<open>ReferenceError\<close>. The statements after it (the unlinking of the
  files and the update of the index) are never reached and have no counterpart here.
\<close>

definition rm :: "(obj \<Rightarrow> hash) \<Rightarrow> path \<Rightarrow> rm_opts option \<Rightarrow> repo \<Rightarrow> result" where
  "rm H path opts s =
    (if \<not> files_inRepo s then (Inl NotARepository, s)
     else if config_isBare s then (Inl BareRepositoryViolation, s)
     else
       let filesToRm = index_matchingFiles s path in
       (case opts of
          None \<Rightarrow> (Inl (TypeError ''Cannot read properties of undefined (reading f)''), s)
        | Some v \<Rightarrow>
            if opt_f v then (Inl (Error ''You cannot remove a file with changes''), s)
            else if filesToRm = [] then
              (Inl (Error (files_pathFromRepoRoot path @ '' did not match any files.'')), s)
            else if fs_existsSync s path \<and> fs_isDirectory s path \<and> \<not> opt_r v then
              (Inl (Error (''You need to add run this operation recursively. Please pass ''
                 @ [CHR 0x22] @ ''-r'' @ [CHR 0x22] @ '' as an option. '')), s)
            else
              let changesToRm = util_intersection (diff_addedOrModifiedFiles H s) filesToRm
              in (Inl (ReferenceError ''changestoRm is not defined''), s)))"

subsection \<open>commit\<close>

text \<open>The options of \<^verbatim>\<open>commit\<close>: \<open>opt_m\<close> is \<^verbatim>\<open>opts.m\<close>, the message.\<close>

record commit_opts =
  opt_m :: "string option"

text \<open>
  \<^verbatim>\<open>commit\<close>, statement by statement, in two parts. \<open>commit_from_tree\<close> is the
  statements behind the call \<^verbatim>\<open>tig.write_tree()\<close>, for the tree hash \<^verbatim>\<open>treeHash\<close> that
  the call binds. The nothing-to-commit test compares \<^verbatim>\<open>refs.hash("HEAD")\<close> with the text
  \<^verbatim>\<open>"undefined"\<close>, as the source does; when they differ its second operand is evaluated,
  and that operand reads the undeclared \<^verbatim>\<open>object\<close>, so the test either is false or
  throws, and the error it guards is never thrown. The message is the content of
  \<^verbatim>\<open>MERGE_MSG\<close> while a merge is in progress and \<^verbatim>\<open>opts.m\<close> otherwise; only the second
  reads \<^verbatim>\<open>opts\<close>.
\<close>

definition commit_from_tree ::
  "(obj \<Rightarrow> hash) \<Rightarrow> commit_opts option \<Rightarrow> hash \<Rightarrow> repo \<Rightarrow> result" where
  "commit_from_tree H opts treeHash s1 =
    (let headDesc =
       (if refs_isHeadDetached s1 then Some ''detached HEAD'' else refs_headBranchName s1)
     in
     if refs_hash s1 (Some ''HEAD'') \<noteq> Some ''undefined'' then
       (Inl (ReferenceError ''object is not defined''), s1)
     else
       let conflictedPaths = index_conflictedPaths s1 in
       if merge_isMergeInProgress s1 \<and> conflictedPaths \<noteq> [] then
         (Inl (Error (join ''\<newline>'' (map (\<lambda>path. ''U '' @ path) conflictedPaths)
            @ '' - cannot commit because you have un-merged files.'')), s1)
       else
         (case (if merge_isMergeInProgress s1 then Inr (files_read s1 ''MERGE_MSG'')
                else (case opts of
                        None \<Rightarrow>
                          Inl (TypeError ''Cannot read properties of undefined (reading m)'')
                      | Some v \<Rightarrow> Inr (opt_m v))) of
            Inl e \<Rightarrow> (Inl e, s1)
          | Inr msg \<Rightarrow>
              (case objects_writeCommit H treeHash msg (refs_commitParentHashes s1) s1 of
                 (commitHash, s2) \<Rightarrow>
                   (case tig_update_ref s2 ''HEAD'' commitHash of
                      (Some e, s3) \<Rightarrow> (Inl e, s3)
                    | (None, s3) \<Rightarrow>
                        if merge_isMergeInProgress s3 then
                          (case fs_unlinkSync s3 ''MERGE_MSG'' of
                             Inl e \<Rightarrow> (Inl e, s3)
                           | Inr s4 \<Rightarrow>
                               (Inr (Some ''Merge made by three-way strategy.''),
                                refs_rm s4 ''MERGE_HEAD''))
                        else
                          (Inr (Some (''['' @ js_str headDesc @ '' '' @ commitHash
                             @ ''] '' @ js_str msg)), s3)))))"

text \<open>
  \<^verbatim>\<open>commit\<close> itself: the two assertions, the call \<^verbatim>\<open>tig.write_tree()\<close>, and with the
  tree hash of that call the statements behind it.
\<close>

definition commit :: "(obj \<Rightarrow> hash) \<Rightarrow> commit_opts option \<Rightarrow> repo \<Rightarrow> result" where
  "commit H opts s =
    (if \<not> files_inRepo s then (Inl NotARepository, s)
     else if config_isBare s then (Inl BareRepositoryViolation, s)
     else
       (case tig_write_tree s of
          (Inl e, s1) \<Rightarrow> (Inl e, s1)
        | (Inr treeHash, s1) \<Rightarrow> commit_from_tree H opts treeHash s1))"

subsection \<open>branch\<close>

text \<open>
  The message of the first error interpolates \<^verbatim>\<open>refs.headBranchName\<close> without calling
  it, which in JavaScript gives the source text of that function; the function is not in
  the source files, and \<open>headBranchName_text\<close> stands for its text.
\<close>

definition headBranchName_text :: string where
  "headBranchName_text = ''function refs.headBranchName''"

text \<open>
  \<^verbatim>\<open>branch\<close>, statement by statement; its options are not used. When the local ref
  exists the source evaluates \<^verbatim>\<open>new Errror(...)\<close>, with three r: an identifier that is
  declared nowhere, so the \<^verbatim>\<open>throw\<close> statement ends in a \<open>ReferenceError\<close> before any
  \<^verbatim>\<open>Error\<close> is built. The new ref is to be written by the call \<^verbatim>\<open>tig.update_ref\<close>.
\<close>

definition branch :: "string option \<Rightarrow> repo \<Rightarrow> result" where
  "branch name s =
    (if \<not> files_inRepo s then (Inl NotARepository, s)
     else
       (case name of
          None \<Rightarrow>
            (Inr (Some (join ''\<newline>''
               (map (\<lambda>b. (if Some b = refs_headBranchName s then ''*'' else '' '') @ b)
                  (map fst (refs_localHeads s))) @ ''\<newline>'')), s)
        | Some n \<Rightarrow>
            (case refs_hash s (Some ''HEAD'') of
               None \<Rightarrow> (Inl (Error (headBranchName_text @ '' is not a valid object name.'')), s)
             | Some h \<Rightarrow>
                 if refs_exists s (refs_toLocalRef n) then
                   (Inl (ReferenceError ''Errror is not defined''), s)
                 else
                   (case tig_update_ref s (refs_toLocalRef n) h of
                      (Some e, s1) \<Rightarrow> (Inl e, s1)
                    | (None, s1) \<Rightarrow> (Inr None, s1)))))"

subsection \<open>checkout\<close>

text \<open>
  \<^verbatim>\<open>checkout\<close>; its second argument is not used. After the hash of the target is
  resolved the source tests \<^verbatim>\<open>object.exists(toHash)\<close>. \<^verbatim>\<open>object\<close> is declared nowhere,
  so reading it throws a \<open>ReferenceError\<close> whatever the target is. The statements after
  it (the test for a commit, the test for the current branch, the overwrite check and the
  writes to the working copy, \<^verbatim>\<open>HEAD\<close> and the index) are never reached and have no
  counterpart here.
\<close>

definition checkout :: "string \<Rightarrow> repo \<Rightarrow> result" where
  "checkout ref s =
    (if \<not> files_inRepo s then (Inl NotARepository, s)
     else if config_isBare s then (Inl BareRepositoryViolation, s)
     else
       let toHash = refs_hash s (Some ref)
       in (Inl (ReferenceError ''object is not defined''), s))"

subsection \<open>diff\<close>

text \<open>
  \<^verbatim>\<open>diff\<close>, statement by statement; its options are not used. Each of the two guards
  joins its tests with \<^verbatim>\<open>&&\<close>, as the source does: it fires when the argument is
  \<^verbatim>\<open>undefined\<close> and does not resolve. The result is built by calling the object
  \<^verbatim>\<open>nameToStatus\<close> once per path; an object is not a function, so the first path throws a
  \<open>TypeError\<close>, and only an empty diff is printed.
\<close>

definition diff :: "(obj \<Rightarrow> hash) \<Rightarrow> string option \<Rightarrow> string option \<Rightarrow> repo \<Rightarrow> result" where
  "diff H ref1 ref2 s =
    (if \<not> files_inRepo s then (Inl NotARepository, s)
     else if config_isBare s then (Inl BareRepositoryViolation, s)
     else if ref1 = None \<and> refs_hash s ref1 = None then
       (Inl (Error (''Ambiguous argument '' @ js_str ref1 @ '': unknown revision.'')), s)
     else if ref2 = None \<and> refs_hash s ref2 = None then
       (Inl (Error (''Ambiguous argument '' @ js_str ref2 @ '': unknown revision.'')), s)
     else
       (case diff_diff H s (refs_hash s ref1) (refs_hash s ref2) of
          Inl e \<Rightarrow> (Inl e, s)
        | Inr d \<Rightarrow>
            let nameToStatus = diff_nameStatus d in
            (case map fst nameToStatus of
               [] \<Rightarrow> (Inr (Some (join ''\<newline>'' [] @ ''\<newline>'')), s)
             | p # ps \<Rightarrow> (Inl (TypeError ''nameToStatus is not a function''), s))))"

subsection \<open>States and a digest for the examples\<close>

text \<open>
  A small digest for the concrete examples: the kind letter followed by the content of a
  blob, by the entries of a tree, or by the tree, parents and message of a commit.
\<close>

fun digest :: "obj \<Rightarrow> hash" where
  "digest (Blob c) = ''b'' @ c"
| "digest (Tree es) = ''t'' @ concat (map (\<lambda>(name, k, h). name @ ''='' @ h @ '';'') es)"
| "digest (Commit t msg ps) = ''c'' @ t @ concat ps @ js_str msg"

text \<open>A directory that is not a repository and holds no files.\<close>

definition empty_dir :: repo where
  "empty_dir = \<lparr>isRepo = False, configBare = False, tigFiles = [], objectStore = [],
     indexEntries = [], workingFiles = []\<rparr>"


text \<open>
  A repository with two commits. \<^verbatim>\<open>master\<close>, the current branch, is at the first
  commit, whose tree holds \<^verbatim>\<open>a.txt\<close> with content 1; \<^verbatim>\<open>feature\<close> is at the second,
  where \<^verbatim>\<open>a.txt\<close> has content 9. Content 2 is staged for \<^verbatim>\<open>a.txt\<close>, and the file on
  disk has content 3: it differs from the index, and the index differs from both commits.
\<close>

definition tree1 :: obj where
  "tree1 = Tree [(''a.txt'', KBlob, digest (Blob ''1''))]"

definition commit1 :: obj where
  "commit1 = Commit (digest tree1) (Some ''first'') []"

definition tree2 :: obj where
  "tree2 = Tree [(''a.txt'', KBlob, digest (Blob ''9''))]"

definition commit2 :: obj where
  "commit2 = Commit (digest tree2) (Some ''second'') [digest commit1]"

definition work_repo :: repo where
  "work_repo =
    \<lparr>isRepo = True, configBare = False,
     tigFiles = [(''HEAD'', ''ref: refs/heads/master''),
                 (''refs/heads/master'', digest commit1),
                 (''refs/heads/feature'', digest commit2)],
     objectStore = [(digest (Blob ''1''), Blob ''1''), (digest tree1, tree1),
                    (digest commit1, commit1), (digest (Blob ''9''), Blob ''9''),
                    (digest tree2, tree2), (digest commit2, commit2),
                    (digest (Blob ''2''), Blob ''2'')],
     indexEntries = [(''a.txt'', digest (Blob ''2''), 0)],
     workingFiles = [(''a.txt'', ''3'')]\<rparr>"

text \<open>
  The same repository while \<^verbatim>\<open>feature\<close> is being merged into \<^verbatim>\<open>master\<close>: once with
  the conflict on \<^verbatim>\<open>a.txt\<close> still staged (stages 1, 2 and 3), once with the conflict
  resolved in favour of content 9.
\<close>

definition merge_conflict_repo :: repo where
  "merge_conflict_repo =
    work_repo\<lparr>tigFiles := tigFiles work_repo @
       [(''MERGE_HEAD'', digest commit2), (''MERGE_MSG'', ''Merge feature into master'')],
     indexEntries := [(''a.txt'', digest (Blob ''1''), 1), (''a.txt'', digest (Blob ''2''), 2),
                      (''a.txt'', digest (Blob ''9''), 3)]\<rparr>"


section \<open>Properties\<close>

subsection \<open>rm\<close>

text \<open>
  C1 (amended): whenever the force option is requested, \<^verbatim>\<open>rm\<close> in a repository that is
  not bare fails with the error "You cannot remove a file with changes" and changes
  nothing, whatever the path matches: force is refused, it never lets a removal proceed.
\<close>

theorem rm_force_always_fails:
  "files_inRepo s \<Longrightarrow> \<not> config_isBare s \<Longrightarrow> opt_f v \<Longrightarrow>
   rm H path (Some v) s = (Inl (Error ''You cannot remove a file with changes''), s)"
  by (simp add: rm_def)

theorem rm_force_always_fails_witness:
  "files_inRepo work_repo \<and> \<not> config_isBare work_repo \<and>
   opt_f \<lparr>opt_f = True, opt_r = True\<rparr> \<and>
   rm digest ''a.txt'' (Some \<lparr>opt_f = True, opt_r = True\<rparr>) work_repo
     = (Inl (Error ''You cannot remove a file with changes''), work_repo)"
proof -
  have a: "files_inRepo work_repo" by (simp add: files_inRepo_def work_repo_def)
  have b: "\<not> config_isBare work_repo" by (simp add: config_isBare_def work_repo_def)
  have c: "opt_f \<lparr>opt_f = True, opt_r = True\<rparr>" by simp
  show ?thesis
    using a b c rm_force_always_fails [OF a b c, of digest "''a.txt''"] by simp
qed

text \<open>
  Without force \<^verbatim>\<open>rm\<close> does not succeed either: every call ends in an error and
  leaves the state as it was.
\<close>

lemma rm_never_returns:
  "\<exists>e. rm H path opts s = (Inl e, s)"
  by (simp add: rm_def Let_def split: option.splits)

text \<open>
  C1 as stated fails: \<^verbatim>\<open>a.txt\<close> is staged and has changes in the working copy, force is
  requested, and the removal does not proceed: \<^verbatim>\<open>rm\<close> throws and the index and the
  working copy are as before.
\<close>

theorem rm_force_counterexample:
  "''a.txt'' \<in> set (index_matchingFiles work_repo ''a.txt'') \<and>
   ''a.txt'' \<in> set (diff_addedOrModifiedFiles digest work_repo) \<and>
   rm digest ''a.txt'' (Some \<lparr>opt_f = True, opt_r = False\<rparr>) work_repo
     = (Inl (Error ''You cannot remove a file with changes''), work_repo)"
  by code_simp

subsection \<open>commit\<close>

text \<open>
  In a repository that is not bare every \<^verbatim>\<open>commit\<close> ends at its first statement after
  the two assertions: the call \<^verbatim>\<open>tig.write_tree()\<close> throws, and nothing has been written.
  So no call of \<^verbatim>\<open>commit\<close> returns.
\<close>

lemma commit_throws:
  "files_inRepo s \<Longrightarrow> \<not> config_isBare s \<Longrightarrow>
   commit H opts s = (Inl (TypeError ''tig.write_tree is not a function''), s)"
  by (simp add: commit_def tig_write_tree_def)

lemma commit_never_returns:
  "\<exists>e. commit H opts s = (Inl e, s)"
  by (simp add: commit_def tig_write_tree_def)

text \<open>
  The statements behind that call do not let a commit through either. Unless \<^verbatim>\<open>HEAD\<close>
  resolves to the text \<^verbatim>\<open>undefined\<close>, the nothing-to-commit test reads \<^verbatim>\<open>object\<close> and
  throws before anything is written; and where the test is passed, the call
  \<^verbatim>\<open>tig.update_ref\<close> throws.
\<close>

lemma commit_from_tree_object:
  "refs_hash s (Some ''HEAD'') \<noteq> Some ''undefined'' \<Longrightarrow>
   commit_from_tree H opts treeHash s = (Inl (ReferenceError ''object is not defined''), s)"
  by (simp add: commit_from_tree_def)

lemma commit_from_tree_never_returns:
  "\<exists>e. fst (commit_from_tree H opts treeHash s) = Inl e"
  by (simp add: commit_from_tree_def tig_update_ref_def Let_def
      split: sum.splits prod.splits option.splits)

text \<open>
  C2: the first commit of a repository, \<^verbatim>\<open>init()\<close> followed by
  \<^verbatim>\<open>commit({m: "msg"})\<close> in an empty directory, does not succeed: it throws, for every
  digest, and the repository is as \<^verbatim>\<open>init\<close> left it, with \<^verbatim>\<open>HEAD\<close> unresolved and no
  object in the store, so no root commit is made. The statements behind the first call
  throw there as well, for every tree hash: \<^verbatim>\<open>HEAD\<close> is unresolved, which is not the text
  \<^verbatim>\<open>undefined\<close>, so the nothing-to-commit test reads \<^verbatim>\<open>object\<close>.
\<close>

theorem first_commit_fails:
  "commit H (Some \<lparr>opt_m = Some ''msg''\<rparr>) (snd (init None empty_dir))
     = (Inl (TypeError ''tig.write_tree is not a function''), snd (init None empty_dir)) \<and>
   commit_from_tree H (Some \<lparr>opt_m = Some ''msg''\<rparr>) treeHash (snd (init None empty_dir))
     = (Inl (ReferenceError ''object is not defined''), snd (init None empty_dir)) \<and>
   refs_hash (snd (init None empty_dir)) (Some ''HEAD'') = None \<and>
   objectStore (snd (init None empty_dir)) = []"
proof -
  let ?s = "snd (init None empty_dir)"
  have a: "files_inRepo ?s" and b: "\<not> config_isBare ?s"
    by (simp_all add: init_def empty_dir_def files_inRepo_def config_isBare_def)
  have c: "refs_hash ?s (Some ''HEAD'') = None"
    by (simp add: init_def empty_dir_def files_inRepo_def refs_hash_def refs_terminalRef_def
        files_read_def symbolicTarget_def chomp_def)
  have d: "objectStore ?s = []"
    by (simp add: init_def empty_dir_def files_inRepo_def)
  have e: "refs_hash ?s (Some ''HEAD'') \<noteq> Some ''undefined''"
    by (simp add: c)
  show ?thesis
    using commit_throws [OF a b] commit_from_tree_object [OF e] c d by simp
qed

text \<open>
  C6: a merge is in progress and \<^verbatim>\<open>a.txt\<close> is staged at the stages 1, 2 and 3;
  \<^verbatim>\<open>commit\<close> fails and writes nothing, but what it throws is the \<open>TypeError\<close> of its
  first call, not the error that lists the conflicted paths. The statements behind that
  call throw before the test for conflicted paths as well, for every tree hash.
\<close>

theorem commit_conflicts_TypeError:
  "merge_isMergeInProgress merge_conflict_repo \<and>
   index_conflictedPaths merge_conflict_repo = [''a.txt''] \<and>
   commit H opts merge_conflict_repo
     = (Inl (TypeError ''tig.write_tree is not a function''), merge_conflict_repo) \<and>
   commit_from_tree H opts treeHash merge_conflict_repo
     = (Inl (ReferenceError ''object is not defined''), merge_conflict_repo)"
proof -
  have a: "files_inRepo merge_conflict_repo" by code_simp
  have b: "\<not> config_isBare merge_conflict_repo" by code_simp
  have c: "merge_isMergeInProgress merge_conflict_repo" by code_simp
  have d: "index_conflictedPaths merge_conflict_repo = [''a.txt'']" by code_simp
  have e: "refs_hash merge_conflict_repo (Some ''HEAD'') \<noteq> Some ''undefined''" by code_simp
  show ?thesis
    using commit_throws [OF a b] commit_from_tree_object [OF e] c d by simp
qed



subsection \<open>init\<close>

text \<open>
  C3: \<^verbatim>\<open>init\<close> in an empty directory writes a \<^verbatim>\<open>HEAD\<close> whose text names
  \<^verbatim>\<open>refs/headers/master\<close>: it is not of the form \<^verbatim>\<open>ref: refs/heads/<name>\<close>, it gives
  no branch name, and the ref it names is not the local ref of \<^verbatim>\<open>master\<close>.
\<close>

theorem init_writes_headers_HEAD:
  "files_read (snd (init opts empty_dir)) ''HEAD'' = Some ''ref: refs/headers/master\<newline>'' \<and>
   \<not> prefix ''ref: refs/heads/'' ''ref: refs/headers/master\<newline>'' \<and>
   refs_headBranchName (snd (init opts empty_dir)) = None \<and>
   refs_terminalRef (snd (init opts empty_dir)) ''HEAD'' \<noteq> refs_toLocalRef ''master''"
  by (simp add: init_def empty_dir_def files_inRepo_def files_read_def refs_headBranchName_def
      refs_terminalRef_def refs_toLocalRef_def symbolicTarget_def chomp_def)

text \<open>
  C9: a call to \<^verbatim>\<open>init\<close> made inside a repository returns \<^verbatim>\<open>undefined\<close> without an
  error and leaves the whole state as it was: nothing is written.
\<close>

theorem init_in_repo_noop:
  "files_inRepo s \<Longrightarrow> init opts s = (Inr None, s)"
  by (simp add: init_def)

theorem init_in_repo_noop_witness:
  "files_inRepo (snd (init None empty_dir)) \<and>
   init (Some \<lparr>bare = True\<rparr>) (snd (init None empty_dir)) = (Inr None, snd (init None empty_dir))"
proof -
  have h: "files_inRepo (snd (init None empty_dir))"
    by (simp add: init_def files_inRepo_def empty_dir_def)
  show ?thesis
    using h init_in_repo_noop [OF h, of "Some \<lparr>bare = True\<rparr>"] by simp
qed

subsection \<open>checkout\<close>

text \<open>
  In a repository that is not bare every \<^verbatim>\<open>checkout\<close> throws the \<open>ReferenceError\<close>
  for \<^verbatim>\<open>object\<close> and leaves the state as it was.
\<close>

lemma checkout_throws:
  "files_inRepo s \<Longrightarrow> \<not> config_isBare s \<Longrightarrow>
   checkout ref s = (Inl (ReferenceError ''object is not defined''), s)"
  by (simp add: checkout_def)

text \<open>
  C5: on \<^verbatim>\<open>master\<close>, \<^verbatim>\<open>a.txt\<close> is staged with a content that the file on disk has
  moved away from, and \<^verbatim>\<open>feature\<close> holds yet another content. \<^verbatim>\<open>feature\<close> resolves to
  a stored commit, and \<^verbatim>\<open>changedFilesCommitWouldOverwrite\<close> of its hash is \<^verbatim>\<open>a.txt\<close>;
  the path also differs between the commit of \<^verbatim>\<open>HEAD\<close> and the working copy, and between
  the commit of \<^verbatim>\<open>HEAD\<close> and the target. \<^verbatim>\<open>checkout("feature")\<close> fails and changes
  nothing, but what it throws is the \<open>ReferenceError\<close>, not the error that lists the
  paths: the overwrite check is never reached.
\<close>

theorem checkout_ReferenceError_before_overwrite_check:
  "refs_hash work_repo (Some ''feature'') = Some (digest commit2) \<and>
   objects_read work_repo (Some (digest commit2)) = Inr commit2 \<and>
   diff_changedFilesCommitWouldOverwrite digest work_repo (Some (digest commit2))
     = Inr [''a.txt''] \<and>
   map_option (map fst \<circ> diff_nameStatus)
       (case diff_diff digest work_repo (refs_hash work_repo (Some ''HEAD'')) None of
          Inl e \<Rightarrow> None | Inr d \<Rightarrow> Some d) = Some [''a.txt''] \<and>
   map_option (map fst \<circ> diff_nameStatus)
       (case diff_diff digest work_repo (refs_hash work_repo (Some ''HEAD''))
               (Some (digest commit2)) of
          Inl e \<Rightarrow> None | Inr d \<Rightarrow> Some d) = Some [''a.txt''] \<and>
   checkout ''feature'' work_repo
     = (Inl (ReferenceError ''object is not defined''), work_repo)"
  by code_simp

subsection \<open>branch\<close>

text \<open>
  C8: \<^verbatim>\<open>feature\<close> is a local branch and \<^verbatim>\<open>HEAD\<close> resolves; \<^verbatim>\<open>branch("feature")\<close>
  fails and writes nothing, but what it throws is the \<open>ReferenceError\<close> for the
  misspelt constructor, not an error that reports the duplicate.
\<close>

theorem branch_duplicate_ReferenceError:
  "refs_exists work_repo (refs_toLocalRef ''feature'') \<and>
   branch (Some ''feature'') work_repo
     = (Inl (ReferenceError ''Errror is not defined''), work_repo)"
  by code_simp

subsection \<open>diff\<close>

text \<open>
  The helper modules raise their own error kinds, never an \<^verbatim>\<open>Error\<close> of the source.
\<close>

lemma collect_Inl:
  "collect xs = Inl e \<Longrightarrow> Inl e \<in> set xs"
  by (induction xs) (auto split: sum.splits)

lemma objects_read_no_Error:
  "objects_read s v \<noteq> Inl (Error msg)"
  by (simp add: objects_read_def split: option.splits)

lemma fileTree_no_Error:
  "fileTree n s pre h \<noteq> Inl (Error msg)"
proof (induction n arbitrary: pre h)
  case 0
  show ?case by simp
next
  case (Suc n)
  show ?case
  proof
    assume a: "fileTree (Suc n) s pre h = Inl (Error msg)"
    then obtain es where es: "objects_read s (Some h) = Inr (Tree es)"
      and c: "collect (map (\<lambda>(name, k, h').
           if k = KTree then fileTree n s (pre @ name @ ''/'') h'
           else Inr [(pre @ name, h')]) es) = Inl (Error msg)"
      using objects_read_no_Error [of s "Some h" msg]
      by (auto split: sum.splits obj.splits)
    from collect_Inl [OF c] obtain name k h' where
      "(if k = KTree then fileTree n s (pre @ name @ ''/'') h' else Inr [(pre @ name, h')])
         = Inl (Error msg)"
      by auto
    then show False
      using Suc.IH by (auto split: if_splits)
  qed
qed

lemma objects_commitToc_no_Error:
  "objects_commitToc s h \<noteq> Inl (Error msg)"
  by (auto simp: objects_commitToc_def objects_read_def fileTree_no_Error
      split: option.splits obj.splits)

lemma diff_diff_no_Error:
  "diff_diff H s h1 h2 \<noteq> Inl (Error msg)"
  by (auto simp: diff_diff_def objects_commitToc_no_Error split: option.splits sum.splits)

text \<open>
  With both arguments supplied neither guard of \<^verbatim>\<open>diff\<close> can fire, so no \<^verbatim>\<open>Error\<close>
  of the source is thrown at all, whether the arguments resolve or not.
\<close>

lemma diff_supplied_never_Error:
  "fst (diff H (Some r1) (Some r2) s) \<noteq> Inl (Error msg)"
  using diff_diff_no_Error [of H s "refs_hash s (Some r1)" "refs_hash s (Some r2)" msg]
  by (auto simp: diff_def Let_def split: sum.splits list.splits)

text \<open>
  C4: \<^verbatim>\<open>nope\<close> resolves to no hash, and \<^verbatim>\<open>diff("nope", "master")\<close> does not fail with
  an unknown-revision error: the diff is computed with the first side left
  \<^verbatim>\<open>undefined\<close>, and the command ends in the \<open>TypeError\<close> of the result line.
\<close>

theorem diff_unresolved_ref_no_unknown_revision:
  "refs_hash work_repo (Some ''nope'') = None \<and>
   diff digest (Some ''nope'') (Some ''master'') work_repo
     = (Inl (TypeError ''nameToStatus is not a function''), work_repo)"
  by code_simp

end
